theory Spec2Isabelle
  imports Main
begin

section \<open>HomeScreen: the searchable task list\<close>

text \<open>
  A shallow embedding of \<^verbatim>\<open>src/screens/HomeScreen.tsx\<close> and of the route table of
  \<^verbatim>\<open>navigation/AppNavigator\<close>. The component's three \<^verbatim>\<open>useState\<close> cells are
  fields of a record; everything the component does to the outside (GET requests,
  alerts, navigation calls, focus listeners) is logged in further fields of the same
  record, so that "exactly one request" or "exactly one alert" is a statement about
  a list. An \<^verbatim>\<open>async\<close> function is split at its \<^verbatim>\<open>await\<close>: the part that runs
  at the call, and the two continuations (promise fulfilled, promise rejected).
  The libraries the component calls (axios, React, \<^verbatim>\<open>FlatList\<close>, the navigator)
  are not part of the repository; what the model takes from their behaviour is said
  at each definition that does.

  Strings are byte lists; the non-ASCII letters of the Turkish literals are written
  as their UTF-8 bytes.
\<close>

subsection \<open>Theme and texts\<close>

definition Theme_text :: string where "Theme_text = ''#1F2937''"
definition Theme_primary :: string where "Theme_primary = ''#2563EB''"
definition Theme_success :: string where "Theme_success = ''#10B981''"
definition Theme_danger :: string where "Theme_danger = ''#EF4444''"
definition Theme_API_URL :: string where "Theme_API_URL = ''http://10.0.2.2:3000/api/tasks''"

text \<open>The literal \<^verbatim>\<open>'Tarih Yok'\<close> ("no date") of \<^verbatim>\<open>TaskCard\<close>.\<close>

definition noDateText :: string where "noDateText = ''Tarih Yok''"

text \<open>The text of \<^verbatim>\<open>ListEmptyComponent\<close>.\<close>

definition emptyText :: string where
  "emptyText = ''Hen'' @ [CHR 0xC3, CHR 0xBC] @ ''z g'' @ [CHR 0xC3, CHR 0xB6]
     @ ''rev yok. Yeni bir g'' @ [CHR 0xC3, CHR 0xB6] @ ''rev ekleyin.''"

text \<open>The two arguments of \<^verbatim>\<open>Alert.alert\<close> in the \<^verbatim>\<open>catch\<close> block.\<close>

definition alertTitle :: string where "alertTitle = ''Hata''"

definition alertMessage :: string where
  "alertMessage = ''G'' @ [CHR 0xC3, CHR 0xB6] @ ''revler y'' @ [CHR 0xC3, CHR 0xBC]
     @ ''klenirken bir sorun olu'' @ [CHR 0xC5, CHR 0x9F] @ ''tu.''"

subsection \<open>Data model\<close>

text \<open>
  \<^verbatim>\<open>interface Task { id: string; title: string; dueDate?: string; completed: boolean }\<close>.
  The field \<^verbatim>\<open>id\<close> is called \<open>task_id\<close> (\<open>id\<close> is the identity function of HOL);
  the optional field is an \<open>option\<close>.
\<close>

record task =
  task_id :: string
  title :: string
  dueDate :: "string option"
  completed :: bool

text \<open>
  \<^verbatim>\<open>RootStackParamList = { home: undefined; add: undefined; detail: { taskId: string } }\<close>:
  a route name together with the parameters its type requires.
\<close>

datatype route = home | add | detail (taskId: string)

text \<open>
  What \<^verbatim>\<open>response.data\<close> can hold. \<^verbatim>\<open>axios.get\<close> is called with the URL alone, so
  the defaults of axios apply: the body is parsed as JSON when it can be, and when
  it cannot the parse error is swallowed and \<^verbatim>\<open>response.data\<close> is the body as a
  string. \<open>TaskArray\<close> is a body that parsed to an array of tasks, \<open>RawText\<close> a body
  that did not parse. The component stores either with \<^verbatim>\<open>setTasks\<close>, unvalidated
  (\<^verbatim>\<open>response.data\<close> has type \<^verbatim>\<open>any\<close>), so the state \<open>tasks\<close> has this type too.
\<close>

datatype response_data = TaskArray "task list" | RawText string

text \<open>
  \<^verbatim>\<open>tasks.length\<close>: the number of elements of an array, the length of a string (only
  whether it is zero is ever used).
\<close>

fun dataLength :: "response_data \<Rightarrow> nat" where
  "dataLength (TaskArray ts) = length ts"
| "dataLength (RawText raw) = length raw"

text \<open>
  What the promise of \<^verbatim>\<open>axios.get\<close> is rejected with: no response at all, or a
  response whose status is outside 200..299. The \<^verbatim>\<open>catch\<close> block never looks at
  the error.
\<close>

datatype fetch_error = NetworkError | HttpStatus nat

text \<open>How the HTTP exchange of a request ends: without a response, or with a status and a body.\<close>

datatype http_outcome = NetworkFailure | HttpResponse nat response_data

text \<open>
  The JavaScript runtime the component calls into, taken as a parameter:
  \<open>newDate d\<close> is the time value (milliseconds) of \<^verbatim>\<open>new Date(d)\<close>, \<open>None\<close> for an
  Invalid Date (time value NaN); \<open>toLocaleDateString\<close> is
  \<^verbatim>\<open>.toLocaleDateString('tr-TR', { day: '2-digit', month: 'short', year: 'numeric' })\<close>
  on such a date.
\<close>

record runtime =
  newDate :: "string \<Rightarrow> int option"
  toLocaleDateString :: "int option \<Rightarrow> string"

subsection \<open>TaskCard\<close>

text \<open>
  \<^verbatim>\<open>item.dueDate && !item.completed && new Date(item.dueDate) < new Date()\<close>, read for
  its truthiness (it is only used as \<^verbatim>\<open>isOverdue && { color: Theme.danger }\<close>).
  \<^verbatim>\<open>item.dueDate\<close> is falsy when it is undefined or the empty string; \<open><\<close> on
  two dates compares their time values and is false when one of them is NaN.
  \<open>now\<close> is the time value of \<^verbatim>\<open>new Date()\<close> at the render.
\<close>

definition isOverdue :: "runtime \<Rightarrow> int \<Rightarrow> task \<Rightarrow> bool" where
  "isOverdue rt now item =
     (case dueDate item of
        None \<Rightarrow> False
      | Some d \<Rightarrow>
          d \<noteq> [] \<and> \<not> completed item \<and>
          (case newDate rt d of None \<Rightarrow> False | Some ts \<Rightarrow> ts < now))"

definition formattedDate :: "runtime \<Rightarrow> task \<Rightarrow> string" where
  "formattedDate rt item =
     (case dueDate item of
        None \<Rightarrow> noDateText
      | Some d \<Rightarrow> if d \<noteq> [] then toLocaleDateString rt (newDate rt d) else noDateText)"

text \<open>
  What a rendered \<^verbatim>\<open>TaskCard\<close> shows: the icon, the title (struck through when
  completed), the date line with its colour (\<^verbatim>\<open>styles.cardDate\<close> has
  \<^verbatim>\<open>color: Theme.text\<close>, overridden by the danger colour when overdue), and the route
  its \<^verbatim>\<open>onPress\<close> navigates to.
\<close>

record card =
  iconName :: string
  iconColor :: string
  titleText :: string
  titleCompleted :: bool
  dateText :: string
  dateColor :: string
  onTap :: route

definition TaskCard :: "runtime \<Rightarrow> int \<Rightarrow> task \<Rightarrow> route \<Rightarrow> card" where
  "TaskCard rt now item tap =
     \<lparr> iconName = (if completed item then ''check-circle'' else ''circle''),
       iconColor = (if completed item then Theme_success else Theme_primary),
       titleText = title item,
       titleCompleted = completed item,
       dateText = formattedDate rt item,
       dateColor = (if isOverdue rt now item then Theme_danger else Theme_text),
       onTap = tap \<rparr>"

subsection \<open>Screen state\<close>

text \<open>
  \<open>tasks\<close>, \<open>loading\<close> and \<open>searchTerm\<close> are the component's state. The rest is the
  component's trace in its environment: \<open>requests\<close> the URL of every GET issued so
  far, in order; \<open>pending\<close> the positions in \<open>requests\<close> of the fetches still in
  flight; \<open>alerts\<close> the alerts shown; \<open>navigations\<close> the calls of
  \<^verbatim>\<open>navigation.navigate\<close>; \<open>focusListeners\<close> the listeners registered for the
  \<^verbatim>\<open>'focus'\<close> event, each given by the search term its closure captured.
\<close>

record home_state =
  tasks :: response_data
  loading :: bool
  searchTerm :: string
  requests :: "string list"
  pending :: "nat list"
  alerts :: "(string \<times> string) list"
  navigations :: "route list"
  focusListeners :: "string list"

definition initial :: home_state where
  "initial = \<lparr> tasks = TaskArray [], loading = False, searchTerm = [],
               requests = [], pending = [], alerts = [], navigations = [],
               focusListeners = [] \<rparr>"

subsection \<open>fetchTasks\<close>

text \<open>The template string \<^verbatim>\<open>`${Theme.API_URL}?search=${searchQuery}`\<close>.\<close>

definition fetchUrl :: "string \<Rightarrow> string" where
  "fetchUrl searchQuery = Theme_API_URL @ ''?search='' @ searchQuery"

text \<open>
  \<^verbatim>\<open>fetchTasks\<close> up to its \<^verbatim>\<open>await\<close>: \<^verbatim>\<open>setLoading(true)\<close>, then the GET is
  issued and is in flight.
\<close>

definition fetchTasks :: "string \<Rightarrow> home_state \<Rightarrow> home_state" where
  "fetchTasks searchQuery s =
     s\<lparr> loading := True,
        requests := requests s @ [fetchUrl searchQuery],
        pending := pending s @ [length (requests s)] \<rparr>"

text \<open>
  The continuation when the promise of request \<open>rid\<close> is fulfilled with
  \<^verbatim>\<open>response.data = data\<close>: \<^verbatim>\<open>setTasks(response.data)\<close>, then the \<^verbatim>\<open>finally\<close>
  block.
\<close>

definition fetchTasks_fulfilled :: "nat \<Rightarrow> response_data \<Rightarrow> home_state \<Rightarrow> home_state" where
  "fetchTasks_fulfilled rid data s =
     s\<lparr> tasks := data, loading := False, pending := remove1 rid (pending s) \<rparr>"

text \<open>
  The continuation when the promise is rejected: the \<^verbatim>\<open>catch\<close> block shows the
  alert, then the \<^verbatim>\<open>finally\<close> block.
\<close>

definition fetchTasks_rejected :: "nat \<Rightarrow> fetch_error \<Rightarrow> home_state \<Rightarrow> home_state" where
  "fetchTasks_rejected rid err s =
     s\<lparr> alerts := alerts s @ [(alertTitle, alertMessage)],
        loading := False,
        pending := remove1 rid (pending s) \<rparr>"

subsection \<open>Effects and handlers\<close>

text \<open>The first \<^verbatim>\<open>useEffect\<close>: \<^verbatim>\<open>fetchTasks(searchTerm)\<close>.\<close>

definition searchEffect :: "home_state \<Rightarrow> home_state" where
  "searchEffect s = fetchTasks (searchTerm s) s"

text \<open>
  The second \<^verbatim>\<open>useEffect\<close>: it registers a focus listener whose closure holds the
  \<open>searchTerm\<close> of this render; its cleanup (\<^verbatim>\<open>unsubscribe\<close>) removes the listener
  that the previous run registered.
\<close>

definition focusEffect :: "home_state \<Rightarrow> home_state" where
  "focusEffect s = s\<lparr> focusListeners := focusListeners s @ [searchTerm s] \<rparr>"

definition focusEffect_cleanup :: "string \<Rightarrow> home_state \<Rightarrow> home_state" where
  "focusEffect_cleanup prev s = s\<lparr> focusListeners := remove1 prev (focusListeners s) \<rparr>"

text \<open>
  After a render, React runs an effect again only when one of its dependencies
  changed. \<^verbatim>\<open>fetchTasks\<close> (a \<^verbatim>\<open>useCallback\<close> with no dependencies) and
  \<^verbatim>\<open>navigation\<close> are stable, so both effects depend on \<open>searchTerm\<close> alone;
  \<open>prev\<close> is its value at the previous render.
\<close>

definition runEffects :: "string \<Rightarrow> home_state \<Rightarrow> home_state" where
  "runEffects prev s =
     (if searchTerm s = prev then s
      else focusEffect (searchEffect (focusEffect_cleanup prev s)))"

text \<open>The screen after its first render: both effects have run once.\<close>

definition mount :: home_state where
  "mount = focusEffect (searchEffect initial)"

definition handleSearch :: "string \<Rightarrow> home_state \<Rightarrow> home_state" where
  "handleSearch term s = s\<lparr> searchTerm := term \<rparr>"

definition navigateToDetail :: "string \<Rightarrow> home_state \<Rightarrow> home_state" where
  "navigateToDetail tid s = s\<lparr> navigations := navigations s @ [detail tid] \<rparr>"

text \<open>The \<^verbatim>\<open>action\<close> of the floating button: \<^verbatim>\<open>navigation.navigate('add')\<close>.\<close>

definition fabAction :: "home_state \<Rightarrow> home_state" where
  "fabAction s = s\<lparr> navigations := navigations s @ [add] \<rparr>"

text \<open>The navigator emits \<^verbatim>\<open>'focus'\<close>: every registered listener is called.\<close>

definition onFocus :: "home_state \<Rightarrow> home_state" where
  "onFocus s = foldl (\<lambda>a q. fetchTasks q a) s (focusListeners s)"

text \<open>\<^verbatim>\<open>onRefresh={() => fetchTasks(searchTerm)}\<close>.\<close>

definition onRefresh :: "home_state \<Rightarrow> home_state" where
  "onRefresh s = fetchTasks (searchTerm s) s"

subsection \<open>Rendering\<close>

definition renderItem :: "runtime \<Rightarrow> int \<Rightarrow> task \<Rightarrow> card" where
  "renderItem rt now item = TaskCard rt now item (detail (task_id item))"

text \<open>
  A \<^verbatim>\<open>FlatList\<close> does not mount a row for every element of \<^verbatim>\<open>data\<close>: it mounts the
  rows of a window. The screen sets neither \<^verbatim>\<open>initialNumToRender\<close> nor
  \<^verbatim>\<open>windowSize\<close>, so the defaults of the library apply: the first render mounts the
  first 10 rows; later the list moves a window \<open>(first, last)\<close> of row indices with
  the scroll position and the layout, and keeps the rows of the initial batch
  mounted. The window is a parameter of the rendering.
\<close>

definition initialNumToRender :: nat where "initialNumToRender = 10"

type_synonym window = "nat \<times> nat"

definition initialWindow :: window where
  "initialWindow = (0, initialNumToRender - 1)"

definition mounted :: "window \<Rightarrow> nat \<Rightarrow> bool" where
  "mounted w i = (i < initialNumToRender \<or> (fst w \<le> i \<and> i \<le> snd w))"

text \<open>
  The body of the screen below the search bar: the activity indicator, or the
  \<^verbatim>\<open>FlatList\<close>. For an array the list shows the mounted rows, each with its index in
  \<^verbatim>\<open>data\<close>, and its \<^verbatim>\<open>ListEmptyComponent\<close> exactly when \<^verbatim>\<open>data\<close> is empty. When
  \<^verbatim>\<open>data\<close> is a string, what the list mounts is decided inside the library and is
  not modelled: \<open>FlatList_raw\<close> only records the element and its props.
\<close>

datatype body =
  ActivityIndicator
  | FlatList (rows: "(nat \<times> card) list") (listEmpty: "string option") (refreshing: bool)
  | FlatList_raw string bool

definition render :: "runtime \<Rightarrow> int \<Rightarrow> window \<Rightarrow> home_state \<Rightarrow> body" where
  "render rt now w s =
     (if loading s \<and> dataLength (tasks s) = 0 then ActivityIndicator
      else (case tasks s of
              TaskArray ts \<Rightarrow>
                FlatList (map (\<lambda>i. (i, renderItem rt now (ts ! i)))
                              (filter (mounted w) [0..<length ts]))
                         (if ts = [] then Some emptyText else None)
                         (loading s)
            | RawText raw \<Rightarrow> FlatList_raw raw (loading s)))"

subsection \<open>Events\<close>

text \<open>
  What can happen to a mounted screen. \<open>fire\<close> is \<open>None\<close> for an event that cannot
  happen in the state: a request that is not in flight cannot settle, a row beyond
  the end of the task array cannot be tapped (the rows of a list whose data is a
  string are not modelled), and the list cannot be pulled while the activity
  indicator stands in its place.
\<close>

datatype event =
  ChangeText string
  | Focus
  | Refresh
  | Fulfilled nat response_data
  | Rejected nat fetch_error
  | TapRow nat
  | TapAdd

fun fire :: "event \<Rightarrow> home_state \<Rightarrow> home_state option" where
  "fire (ChangeText term) s = Some (runEffects (searchTerm s) (handleSearch term s))"
| "fire Focus s = Some (onFocus s)"
| "fire Refresh s =
     (if loading s \<and> dataLength (tasks s) = 0 then None else Some (onRefresh s))"
| "fire (Fulfilled rid data) s =
     (if rid \<in> set (pending s) then Some (fetchTasks_fulfilled rid data s) else None)"
| "fire (Rejected rid err) s =
     (if rid \<in> set (pending s) then Some (fetchTasks_rejected rid err s) else None)"
| "fire (TapRow i) s =
     (case tasks s of
        TaskArray ts \<Rightarrow>
          if i < length ts then Some (navigateToDetail (task_id (ts ! i)) s) else None
      | RawText raw \<Rightarrow> None)"
| "fire TapAdd s = Some (fabAction s)"

fun run :: "event list \<Rightarrow> home_state \<Rightarrow> home_state option" where
  "run [] s = Some s"
| "run (e # es) s = (case fire e s of None \<Rightarrow> None | Some s' \<Rightarrow> run es s')"

text \<open>
  How the promise of request \<open>rid\<close> settles for an outcome of the HTTP exchange,
  under the defaults of axios (\<^verbatim>\<open>validateStatus\<close>: 200..299; a body that does not
  parse is handed over as a string): the event the component receives.
\<close>

fun axios_get :: "nat \<Rightarrow> http_outcome \<Rightarrow> event" where
  "axios_get rid NetworkFailure = Rejected rid NetworkError"
| "axios_get rid (HttpResponse status data) =
     (if 200 \<le> status \<and> status < 300 then Fulfilled rid data
      else Rejected rid (HttpStatus status))"

text \<open>The events that settle no fetch.\<close>

fun quiet :: "event \<Rightarrow> bool" where
  "quiet (Fulfilled rid data) = False"
| "quiet (Rejected rid err) = False"
| "quiet e = True"

subsection \<open>The server's reading of the URL\<close>







subsection \<open>Invariants of a run\<close>

text \<open>
  \<open>listener_inv\<close>: exactly one focus listener is registered, and its closure holds
  the current search term.
\<close>

definition listener_inv :: "home_state \<Rightarrow> bool" where
  "listener_inv s = (focusListeners s = [searchTerm s])"

section \<open>Properties\<close>

lemmas screen_defs =
  mount_def initial_def focusEffect_def searchEffect_def fetchTasks_def fetchUrl_def
  runEffects_def handleSearch_def focusEffect_cleanup_def fetchTasks_fulfilled_def
  fetchTasks_rejected_def navigateToDetail_def fabAction_def onFocus_def onRefresh_def

subsection \<open>Several listeners called in a row\<close>

lemma foldl_fetchTasks_requests:
  "requests (foldl (\<lambda>a q. fetchTasks q a) s qs) = requests s @ map fetchUrl qs"
  by (induction qs arbitrary: s) (simp_all add: fetchTasks_def)

lemma foldl_fetchTasks_loading:
  "loading (foldl (\<lambda>a q. fetchTasks q a) s qs) = (if qs = [] then loading s else True)"
  by (induction qs arbitrary: s) (simp_all add: fetchTasks_def)

lemma foldl_fetchTasks_pending:
  "pending (foldl (\<lambda>a q. fetchTasks q a) s qs)
     = pending s @ [length (requests s) ..< length (requests s) + length qs]"
proof (induction qs arbitrary: s)
  case Nil
  then show ?case by simp
next
  case (Cons q qs)
  have "[length (requests s) ..< length (requests s) + length (q # qs)]
          = length (requests s)
            # [Suc (length (requests s)) ..< Suc (length (requests s)) + length qs]"
    by (simp add: upt_rec)
  with Cons show ?case by (simp add: fetchTasks_def)
qed

lemma fire_Focus_facts:
  assumes "fire Focus s = Some s'"
  shows "requests s' = requests s @ map fetchUrl (focusListeners s)"
    and "loading s' = (if focusListeners s = [] then loading s else True)"
    and "pending s' = pending s
           @ [length (requests s) ..< length (requests s) + length (focusListeners s)]"
  using assms
  by (auto simp: onFocus_def foldl_fetchTasks_requests foldl_fetchTasks_loading
        foldl_fetchTasks_pending)

subsection \<open>The focus listener follows the search term\<close>

lemma mount_listener_inv: "listener_inv mount"
  by (simp add: listener_inv_def screen_defs)

lemma fire_listener_inv:
  "fire e s = Some s' \<Longrightarrow> listener_inv s \<Longrightarrow> listener_inv s'"
  by (cases e)
     (auto simp: listener_inv_def screen_defs split: if_splits response_data.splits)

lemma run_listener_inv:
  "run evs s = Some s' \<Longrightarrow> listener_inv s \<Longrightarrow> listener_inv s'"
  by (induction evs arbitrary: s) (auto split: option.splits dest: fire_listener_inv)

subsection \<open>The loading flag between settlements\<close>

lemma fire_quiet_requests:
  "fire e s = Some s' \<Longrightarrow> length (requests s) \<le> length (requests s')"
proof (cases e)
  case Focus
  assume "fire e s = Some s'"
  with Focus show ?thesis by (simp add: fire_Focus_facts(1))
qed (auto simp: screen_defs split: if_splits response_data.splits)

lemma fire_quiet_keeps:
  "fire e s = Some s' \<Longrightarrow> quiet e \<Longrightarrow> loading s \<and> pending s \<noteq> [] \<Longrightarrow>
     loading s' \<and> pending s' \<noteq> []"
proof (cases e)
  case Focus
  assume "fire e s = Some s'" "loading s \<and> pending s \<noteq> []"
  with Focus show ?thesis by (simp add: fire_Focus_facts(2,3))
qed (auto simp: screen_defs split: if_splits response_data.splits)

lemma fire_quiet_issue:
  "fire e s = Some s' \<Longrightarrow> quiet e \<Longrightarrow> length (requests s) < length (requests s') \<Longrightarrow>
     loading s' \<and> pending s' \<noteq> []"
proof (cases e)
  case Focus
  assume "fire e s = Some s'" "length (requests s) < length (requests s')"
  with Focus show ?thesis by (auto simp: fire_Focus_facts)
qed (auto simp: screen_defs split: if_splits response_data.splits)

lemma run_quiet:
  "run post s1 = Some s \<Longrightarrow> list_all quiet post \<Longrightarrow>
   (loading s1 \<and> pending s1 \<noteq> []) \<or> length (requests s1) < length (requests s) \<Longrightarrow>
   loading s \<and> pending s \<noteq> []"
proof (induction post arbitrary: s1)
  case Nil
  then show ?case by simp
next
  case (Cons e es)
  from Cons.prems(1) obtain s2 where f: "fire e s1 = Some s2" and r: "run es s2 = Some s"
    by (auto split: option.splits)
  from Cons.prems(2) have q: "quiet e" and qs: "list_all quiet es" by simp_all
  from Cons.prems(3) consider (a) "loading s1 \<and> pending s1 \<noteq> []"
    | (b) "length (requests s1) < length (requests s2)"
    | (c) "length (requests s2) < length (requests s)"
    using fire_quiet_requests [OF f] by linarith
  then show ?case
  proof cases
    case a
    then have "loading s2 \<and> pending s2 \<noteq> []" by (rule fire_quiet_keeps [OF f q])
    then show ?thesis using Cons.IH [OF r qs] by blast
  next
    case b
    then have "loading s2 \<and> pending s2 \<noteq> []" by (rule fire_quiet_issue [OF f q])
    then show ?thesis using Cons.IH [OF r qs] by blast
  next
    case c
    then show ?thesis using Cons.IH [OF r qs] by blast
  qed
qed

subsection \<open>The rows a window mounts\<close>

lemma filter_less_upt: "filter (\<lambda>i. i < k) [0..<n] = [0..<min n k]"
proof (induction n)
  case 0
  then show ?case by simp
next
  case (Suc n)
  show ?case
  proof (cases "n < k")
    case True
    with Suc show ?thesis by (simp add: min_def)
  next
    case False
    then have "min n k = k" "min (Suc n) k = k" by simp_all
    with Suc False show ?thesis by simp
  qed
qed

lemma mounted_initialWindow: "mounted initialWindow = (\<lambda>i. i < initialNumToRender)"
  by (rule ext) (auto simp: mounted_def initialWindow_def initialNumToRender_def)

lemma mounted_small: "n \<le> initialNumToRender \<Longrightarrow> filter (mounted w) [0..<n] = [0..<n]"
  by (rule filter_True) (auto simp: mounted_def)

subsection \<open>What the server reads from a request URL\<close>











subsection \<open>A failed fetch\<close>

text \<open>
  C1. Whenever the promise of a fetch in flight is rejected, that is when the
  exchange ends without a response (network error) or with a status outside
  200..299, the task list keeps its previous value, exactly one alert is added to
  the alerts shown, and no request is issued (the log of requests is unchanged and
  the failed request alone leaves the set of requests in flight).
\<close>

theorem rejected_fetch_keeps_list:
  "rid \<in> set (pending s) \<Longrightarrow>
   outcome = NetworkFailure \<or>
     (\<exists>status data. outcome = HttpResponse status data \<and> \<not> (200 \<le> status \<and> status < 300)) \<Longrightarrow>
     (\<exists>s' err. axios_get rid outcome = Rejected rid err \<and>
           fire (axios_get rid outcome) s = Some s' \<and>
           tasks s' = tasks s \<and>
           alerts s' = alerts s @ [(alertTitle, alertMessage)] \<and>
           length (alerts s') = Suc (length (alerts s)) \<and>
           requests s' = requests s \<and>
           pending s' = remove1 rid (pending s))"
  by (auto simp: fetchTasks_rejected_def)

theorem rejected_fetch_keeps_list_witness:
  "0 \<in> set (pending mount) \<and>
   (\<exists>s'. fire (axios_get 0 NetworkFailure) mount = Some s' \<and>
         tasks s' = tasks mount \<and>
         alerts s' = [(alertTitle, alertMessage)] \<and>
         requests s' = requests mount \<and> pending s' = []) \<and>
   (\<exists>s'. fire (axios_get 0 (HttpResponse 500 (RawText ''Internal Server Error''))) mount = Some s' \<and>
         tasks s' = tasks mount \<and>
         alerts s' = [(alertTitle, alertMessage)] \<and>
         requests s' = requests mount \<and> pending s' = [])"
proof -
  have h: "0 \<in> set (pending mount)" by (simp add: screen_defs)
  from rejected_fetch_keeps_list [OF h, of NetworkFailure]
    rejected_fetch_keeps_list [OF h, of "HttpResponse 500 (RawText ''Internal Server Error'')"]
  show ?thesis
    by (simp add: screen_defs)
qed

text \<open>
  A body that cannot be parsed is no such failure for the component: with status 200
  the promise is fulfilled with the body as a string, which replaces the task list,
  and no alert is shown.
\<close>

theorem unparsable_body_counterexample:
  "tasks mount = TaskArray [] \<and>
   map_option tasks (fire (axios_get 0 (HttpResponse 200 (RawText ''<html>''))) mount)
     = Some (RawText ''<html>'') \<and>
   map_option alerts (fire (axios_get 0 (HttpResponse 200 (RawText ''<html>''))) mount)
     = Some []"
  by (simp add: screen_defs)

subsection \<open>Searching\<close>



subsection \<open>Overdue tasks\<close>

text \<open>
  C3. A task with a due date whose time lies before the time of the render, and
  which is not completed, is flagged overdue and its row shows the date in the
  danger colour. A completed task is never flagged overdue, whatever its due date
  and whatever the time of the render; its date keeps the text colour. (A due date
  in the past is a non-empty string: the empty string is no date.)
\<close>

theorem overdue_flag:
  "(dueDate item = Some d \<and> d \<noteq> [] \<and> newDate rt d = Some ts \<and> ts < now \<and> \<not> completed item
      \<longrightarrow> isOverdue rt now item \<and> dateColor (renderItem rt now item) = Theme_danger) \<and>
   (completed item
      \<longrightarrow> \<not> isOverdue rt now item \<and> dateColor (renderItem rt now item) = Theme_text)"
  by (auto simp: isOverdue_def renderItem_def TaskCard_def split: option.splits)

theorem overdue_flag_witness:
  "(isOverdue \<lparr>newDate = (\<lambda>d. if d = ''2020-01-01'' then Some 1577836800000 else None),
              toLocaleDateString = (\<lambda>t. ''01 Oca 2020'')\<rparr>
      1600000000000
      \<lparr>task_id = ''1'', title = ''pay rent'', dueDate = Some ''2020-01-01'',
        completed = False\<rparr>) \<and>
   \<not> (isOverdue \<lparr>newDate = (\<lambda>d. if d = ''2020-01-01'' then Some 1577836800000 else None),
              toLocaleDateString = (\<lambda>t. ''01 Oca 2020'')\<rparr>
      1600000000000
      \<lparr>task_id = ''1'', title = ''pay rent'', dueDate = Some ''2020-01-01'',
        completed = True\<rparr>)"
  using
    overdue_flag [of "\<lparr>task_id = ''1'', title = ''pay rent'', dueDate = Some ''2020-01-01'',
        completed = False\<rparr>" "''2020-01-01''"
      "\<lparr>newDate = (\<lambda>d. if d = ''2020-01-01'' then Some 1577836800000 else None),
              toLocaleDateString = (\<lambda>t. ''01 Oca 2020'')\<rparr>" 1577836800000 1600000000000]
    overdue_flag [of "\<lparr>task_id = ''1'', title = ''pay rent'', dueDate = Some ''2020-01-01'',
        completed = True\<rparr>" "''2020-01-01''"
      "\<lparr>newDate = (\<lambda>d. if d = ''2020-01-01'' then Some 1577836800000 else None),
              toLocaleDateString = (\<lambda>t. ''01 Oca 2020'')\<rparr>" 1577836800000 1600000000000]
  by simp

text \<open>
  C9. A task without a due date, or whose due date is the empty string, is never
  flagged overdue, whatever its completed flag and whatever the time of the render.
\<close>

theorem no_dueDate_never_overdue:
  "dueDate item = None \<or> dueDate item = Some [] \<Longrightarrow>
     \<not> isOverdue rt now item \<and> dateColor (renderItem rt now item) = Theme_text"
  by (auto simp: isOverdue_def renderItem_def TaskCard_def)

theorem no_dueDate_never_overdue_witness:
  "(dueDate \<lparr>task_id = ''1'', title = ''pay rent'', dueDate = None, completed = False\<rparr> = None
    \<or> dueDate \<lparr>task_id = ''1'', title = ''pay rent'', dueDate = None, completed = False\<rparr>
        = Some []) \<and>
   \<not> isOverdue \<lparr>newDate = (\<lambda>d. Some 0), toLocaleDateString = (\<lambda>t. [])\<rparr> 1600000000000
       \<lparr>task_id = ''1'', title = ''pay rent'', dueDate = None, completed = False\<rparr> \<and>
   \<not> isOverdue \<lparr>newDate = (\<lambda>d. Some 0), toLocaleDateString = (\<lambda>t. [])\<rparr> 1600000000000
       \<lparr>task_id = ''2'', title = ''call'', dueDate = Some [], completed = False\<rparr>"
  using
    no_dueDate_never_overdue [of
      "\<lparr>task_id = ''1'', title = ''pay rent'', dueDate = None, completed = False\<rparr>"
      "\<lparr>newDate = (\<lambda>d. Some 0), toLocaleDateString = (\<lambda>t. [])\<rparr>" 1600000000000]
    no_dueDate_never_overdue [of
      "\<lparr>task_id = ''2'', title = ''call'', dueDate = Some [], completed = False\<rparr>"
      "\<lparr>newDate = (\<lambda>d. Some 0), toLocaleDateString = (\<lambda>t. [])\<rparr>" 1600000000000]
  by simp

subsection \<open>The loading flag\<close>

text \<open>
  C4. At every moment at which no fetch has settled since the most recent fetch was
  issued, a fetch is in flight and the loading flag is true, however many fetches
  overlap. On a run of events: cut the run at any point after which no fetch
  settles; if a fetch was issued after the cut, or the cut is at the mount (which
  issues the first fetch), then at the end of the run a fetch is in flight and the
  loading flag is true.
\<close>

theorem loading_until_settlement:
  "run pre mount = Some s1 \<Longrightarrow> run post s1 = Some s \<Longrightarrow> list_all quiet post \<Longrightarrow>
   pre = [] \<or> length (requests s1) < length (requests s) \<Longrightarrow>
   pending s \<noteq> [] \<and> loading s"
proof -
  assume pre: "run pre mount = Some s1" and post: "run post s1 = Some s"
    and q: "list_all quiet post"
    and h: "pre = [] \<or> length (requests s1) < length (requests s)"
  have m: "loading mount \<and> pending mount \<noteq> []" by (simp add: screen_defs)
  from h have "(loading s1 \<and> pending s1 \<noteq> []) \<or> length (requests s1) < length (requests s)"
    using pre m by auto
  with post q have "loading s \<and> pending s \<noteq> []" by (rule run_quiet)
  then show ?thesis by simp
qed

theorem loading_until_settlement_witness:
  "(\<exists>s. run [] mount = Some mount \<and>
        run [Focus, ChangeText ''m'', ChangeText ''mi''] mount = Some s \<and>
        list_all quiet [Focus, ChangeText ''m'', ChangeText ''mi''] \<and>
        pending s = [0, 1, 2, 3] \<and> loading s) \<and>
   (\<exists>s1 s. run [ChangeText ''m'', Fulfilled 1 (TaskArray []), Rejected 0 NetworkError] mount
          = Some s1 \<and>
        run [TapAdd, ChangeText ''mi''] s1 = Some s \<and>
        list_all quiet [TapAdd, ChangeText ''mi''] \<and>
        length (requests s1) < length (requests s) \<and>
        pending s = [2] \<and> loading s)"
proof -
  have a1: "run [] mount = Some mount" by simp
  obtain s where a2: "run [Focus, ChangeText ''m'', ChangeText ''mi''] mount = Some s"
    by (simp add: screen_defs)
  have a3: "list_all quiet [Focus, ChangeText ''m'', ChangeText ''mi'']" by simp
  have a4: "pending s = [0, 1, 2, 3]" using a2 by (auto simp: screen_defs)
  from loading_until_settlement [OF a1 a2 a3] have a5: "loading s" by simp
  obtain t1 where b1:
    "run [ChangeText ''m'', Fulfilled 1 (TaskArray []), Rejected 0 NetworkError] mount = Some t1"
    by (simp add: screen_defs)
  have r1: "length (requests t1) = 2" and p1: "searchTerm t1 = ''m''"
    using b1 by (auto simp: screen_defs)
  obtain t where b2: "run [TapAdd, ChangeText ''mi''] t1 = Some t"
    by (simp add: screen_defs)
  have b3: "list_all quiet [TapAdd, ChangeText ''mi'']" by simp
  have r2: "length (requests t) = 3" using b2 r1 p1 by (auto simp: screen_defs)
  have b4: "length (requests t1) < length (requests t)" using r1 r2 by simp
  have b5: "pending t = [2]" using b1 b2 by (auto simp: screen_defs)
  from loading_until_settlement [OF b1 b2 b3] b4 have b6: "loading t" by simp
  from a1 a2 a3 a4 a5 b1 b2 b3 b4 b5 b6 show ?thesis by blast
qed

text \<open>
  After a settlement the flag does not follow the requests in flight: the search
  term changes while the fetch of the mount is in flight, that first fetch
  succeeds, and its \<^verbatim>\<open>finally\<close> block clears the flag while the second request
  is still in flight.
\<close>

theorem loading_while_in_flight_counterexample:
  "map_option pending (run [ChangeText ''milk'', Fulfilled 0 (TaskArray [])] mount) = Some [1] \<and>
   map_option loading (run [ChangeText ''milk'', Fulfilled 0 (TaskArray [])] mount) = Some False"
  by (simp add: screen_defs)

subsection \<open>What the screen shows\<close>

text \<open>
  C5. When a fetch in flight succeeds with a response of N task objects, the N tasks
  become the data of the list, in the order of the response, and the screen shows
  the list (not the activity indicator) with one row for each task that the window
  of the list mounts: never more than N rows, exactly N rows when N is at most 10,
  and the first 10 rows at the first render. The mounted row of task i shows the
  title of task i, and as its date the formatted due date of task i, or the "no
  date" placeholder when the due date is absent (or the empty string).
\<close>

theorem success_mounts_rows:
  "rid \<in> set (pending s) \<Longrightarrow> 200 \<le> status \<and> status < 300 \<Longrightarrow>
     (\<exists>s' rs. fire (axios_get rid (HttpResponse status (TaskArray data))) s = Some s' \<and>
        tasks s' = TaskArray data \<and>
        render rt now w s' = FlatList rs (if data = [] then Some emptyText else None) False \<and>
        map fst rs = filter (mounted w) [0..<length data] \<and>
        length rs \<le> length data \<and>
        (length data \<le> initialNumToRender \<longrightarrow> length rs = length data) \<and>
        (w = initialWindow \<longrightarrow> length rs = min (length data) initialNumToRender) \<and>
        (\<forall>(i, c)\<in>set rs.
           i < length data \<and>
           titleText c = title (data ! i) \<and>
           dateText c =
             (case dueDate (data ! i) of
                None \<Rightarrow> noDateText
              | Some d \<Rightarrow> if d = [] then noDateText
                          else toLocaleDateString rt (newDate rt d))))"
proof -
  assume p: "rid \<in> set (pending s)" and st: "200 \<le> status \<and> status < 300"
  let ?s' = "fetchTasks_fulfilled rid (TaskArray data) s"
  let ?rs = "map (\<lambda>i. (i, renderItem rt now (data ! i))) (filter (mounted w) [0..<length data])"
  have f: "fire (axios_get rid (HttpResponse status (TaskArray data))) s = Some ?s'"
    using p st by simp
  have t: "tasks ?s' = TaskArray data" by (simp add: fetchTasks_fulfilled_def)
  have r: "render rt now w ?s' = FlatList ?rs (if data = [] then Some emptyText else None) False"
    by (simp add: render_def fetchTasks_fulfilled_def)
  have m: "map fst ?rs = filter (mounted w) [0..<length data]"
    by (simp add: comp_def)
  have l: "length ?rs \<le> length data"
    using length_filter_le [of "mounted w" "[0..<length data]"] by simp
  have small: "length data \<le> initialNumToRender \<longrightarrow> length ?rs = length data"
    by (simp add: mounted_small)
  have init: "w = initialWindow \<longrightarrow> length ?rs = min (length data) initialNumToRender"
    by (simp add: mounted_initialWindow filter_less_upt)
  have each: "\<forall>(i, c)\<in>set ?rs.
           i < length data \<and>
           titleText c = title (data ! i) \<and>
           dateText c =
             (case dueDate (data ! i) of
                None \<Rightarrow> noDateText
              | Some d \<Rightarrow> if d = [] then noDateText
                          else toLocaleDateString rt (newDate rt d))"
    by (auto simp: renderItem_def TaskCard_def formattedDate_def split: option.splits)
  from f t r m l small init each show ?thesis by blast
qed

theorem success_mounts_rows_witness:
  "0 \<in> set (pending mount) \<and> (200::nat) \<le> 200 \<and> (200::nat) < 300 \<and>
   (\<exists>s'. fire (axios_get 0 (HttpResponse 200 (TaskArray
             [\<lparr>task_id = ''1'', title = ''pay rent'', dueDate = Some ''2020-01-01'',
               completed = False\<rparr>,
              \<lparr>task_id = ''2'', title = ''call'', dueDate = None, completed = True\<rparr>])))
           mount = Some s' \<and>
      map (\<lambda>(i, c). (i, titleText c, dateText c))
        (rows (render
           \<lparr>newDate = (\<lambda>d. if d = ''2020-01-01'' then Some 1577836800000 else None),
             toLocaleDateString = (\<lambda>t. if t = None then ''Invalid Date'' else ''01 Oca 2020'')\<rparr>
           1600000000000 (40, 60) s'))
        = [(0, ''pay rent'', ''01 Oca 2020''), (1, ''call'', ''Tarih Yok'')])"
proof -
  have h: "0 \<in> set (pending mount)" by (simp add: screen_defs)
  have u: "[0..<2] = [0, Suc 0]" by (simp add: upt_rec)
  from success_mounts_rows [OF h, of 200
      "[\<lparr>task_id = ''1'', title = ''pay rent'', dueDate = Some ''2020-01-01'',
          completed = False\<rparr>,
        \<lparr>task_id = ''2'', title = ''call'', dueDate = None, completed = True\<rparr>]"
      "\<lparr>newDate = (\<lambda>d. if d = ''2020-01-01'' then Some 1577836800000 else None),
        toLocaleDateString = (\<lambda>t. if t = None then ''Invalid Date'' else ''01 Oca 2020'')\<rparr>"
      1600000000000 "(40, 60)"]
  show ?thesis
    by (simp add: screen_defs render_def renderItem_def TaskCard_def formattedDate_def
        noDateText_def mounted_def initialNumToRender_def u)
qed

text \<open>
  The list does not mount a row for every task: of a response with 12 tasks the
  first render shows 10 rows.
\<close>

theorem twelve_tasks_counterexample:
  "map_option (length \<circ> rows \<circ>
      render \<lparr>newDate = (\<lambda>d. None), toLocaleDateString = (\<lambda>t. [])\<rparr> 0 initialWindow)
     (fire (axios_get 0 (HttpResponse 200 (TaskArray
        [\<lparr>task_id = ''a'', title = ''task'', dueDate = None, completed = False\<rparr>,
         \<lparr>task_id = ''b'', title = ''task'', dueDate = None, completed = False\<rparr>,
         \<lparr>task_id = ''c'', title = ''task'', dueDate = None, completed = False\<rparr>,
         \<lparr>task_id = ''d'', title = ''task'', dueDate = None, completed = False\<rparr>,
         \<lparr>task_id = ''e'', title = ''task'', dueDate = None, completed = False\<rparr>,
         \<lparr>task_id = ''f'', title = ''task'', dueDate = None, completed = False\<rparr>,
         \<lparr>task_id = ''g'', title = ''task'', dueDate = None, completed = False\<rparr>,
         \<lparr>task_id = ''h'', title = ''task'', dueDate = None, completed = False\<rparr>,
         \<lparr>task_id = ''i'', title = ''task'', dueDate = None, completed = False\<rparr>,
         \<lparr>task_id = ''j'', title = ''task'', dueDate = None, completed = False\<rparr>,
         \<lparr>task_id = ''k'', title = ''task'', dueDate = None, completed = False\<rparr>,
         \<lparr>task_id = ''l'', title = ''task'', dueDate = None, completed = False\<rparr>])))
        mount)
     = Some 10"
  by (simp add: screen_defs render_def mounted_initialWindow filter_less_upt
      initialNumToRender_def)

text \<open>
  C6. When the task list is empty: if the loading flag is true the activity
  indicator is shown in place of the list; if the loading flag is false the list is
  shown with its empty-state message and no rows.
\<close>

theorem empty_list_body:
  "tasks s = TaskArray [] \<Longrightarrow>
     render rt now w s = (if loading s then ActivityIndicator
                          else FlatList [] (Some emptyText) False)"
  by (simp add: render_def)

theorem empty_list_body_witness:
  "tasks mount = TaskArray [] \<and> tasks initial = TaskArray [] \<and>
   render \<lparr>newDate = (\<lambda>d. None), toLocaleDateString = (\<lambda>t. [])\<rparr> 0 initialWindow mount
     = ActivityIndicator \<and>
   render \<lparr>newDate = (\<lambda>d. None), toLocaleDateString = (\<lambda>t. [])\<rparr> 0 initialWindow initial
     = FlatList [] (Some emptyText) False"
proof -
  have h1: "tasks mount = TaskArray []" by (simp add: screen_defs)
  have h2: "tasks initial = TaskArray []" by (simp add: screen_defs)
  from h1 h2
    empty_list_body [OF h1, of "\<lparr>newDate = (\<lambda>d. None), toLocaleDateString = (\<lambda>t. [])\<rparr>" 0
      initialWindow]
    empty_list_body [OF h2, of "\<lparr>newDate = (\<lambda>d. None), toLocaleDateString = (\<lambda>t. [])\<rparr>" 0
      initialWindow]
  show ?thesis by (simp add: screen_defs)
qed

subsection \<open>Focus\<close>

text \<open>
  C7. In every state the mounted screen can reach, a focus event re-triggers exactly
  one fetch, and the search query of that fetch is the search term the screen holds
  at that moment.
\<close>

theorem focus_refetches_current_term:
  "run evs mount = Some s \<Longrightarrow>
     (\<exists>s'. fire Focus s = Some s' \<and>
           requests s' = requests s @ [Theme_API_URL @ ''?search='' @ searchTerm s] \<and>
           pending s' = pending s @ [length (requests s)] \<and>
           searchTerm s' = searchTerm s)"
proof -
  assume "run evs mount = Some s"
  then have "listener_inv s" using mount_listener_inv by (rule run_listener_inv)
  then have l: "focusListeners s = [searchTerm s]" by (simp add: listener_inv_def)
  show ?thesis
    by (simp add: onFocus_def l fetchTasks_def fetchUrl_def)
qed

theorem focus_refetches_current_term_witness:
  "\<exists>s s'. run [ChangeText ''milk'', TapAdd] mount = Some s \<and>
          fire Focus s = Some s' \<and>
          searchTerm s = ''milk'' \<and>
          requests s = [''http://10.0.2.2:3000/api/tasks?search='',
                        ''http://10.0.2.2:3000/api/tasks?search=milk''] \<and>
          requests s' = [''http://10.0.2.2:3000/api/tasks?search='',
                         ''http://10.0.2.2:3000/api/tasks?search=milk'',
                         ''http://10.0.2.2:3000/api/tasks?search=milk'']"
proof -
  have r: "run [ChangeText ''milk'', TapAdd] mount
             = Some (fabAction (runEffects [] (handleSearch ''milk'' mount)))"
    by (simp add: screen_defs)
  from focus_refetches_current_term [OF r] show ?thesis
    by (simp add: screen_defs Theme_API_URL_def)
qed

subsection \<open>Navigation\<close>

text \<open>
  C8. Tapping row i of the list calls \<^verbatim>\<open>navigation.navigate\<close> once, with the route
  \<open>detail\<close> whose \<open>taskId\<close> is the id of the task of row i (the route the row's
  \<open>onTap\<close> holds); tapping the add button calls it once with the route \<open>add\<close>, which
  has no parameter. The routes are \<open>home\<close> and \<open>add\<close>, without parameters, and
  \<open>detail\<close>, with a \<open>taskId\<close> string.
\<close>

theorem navigation_contract:
  "(tasks s = TaskArray ts \<and> i < length ts \<longrightarrow>
      fire (TapRow i) s
        = Some (s\<lparr>navigations := navigations s @ [detail (task_id (ts ! i))]\<rparr>) \<and>
      onTap (renderItem rt now (ts ! i)) = detail (task_id (ts ! i)) \<and>
      taskId (detail (task_id (ts ! i))) = task_id (ts ! i)) \<and>
   fire TapAdd s = Some (s\<lparr>navigations := navigations s @ [add]\<rparr>) \<and>
   (\<forall>r. r = home \<or> r = add \<or> (\<exists>tid. r = detail tid))"
proof -
  have "\<forall>r. r = home \<or> r = add \<or> (\<exists>tid. r = detail tid)"
    by (auto intro: route.exhaust)
  then show ?thesis
    by (simp add: navigateToDetail_def fabAction_def renderItem_def TaskCard_def)
qed

theorem navigation_contract_witness:
  "tasks (fetchTasks_fulfilled 0 (TaskArray
         [\<lparr>task_id = ''t1'', title = ''pay rent'', dueDate = None, completed = False\<rparr>,
          \<lparr>task_id = ''t2'', title = ''call'', dueDate = None, completed = True\<rparr>]) mount)
     = TaskArray
         [\<lparr>task_id = ''t1'', title = ''pay rent'', dueDate = None, completed = False\<rparr>,
          \<lparr>task_id = ''t2'', title = ''call'', dueDate = None, completed = True\<rparr>] \<and>
   1 < length
         [\<lparr>task_id = ''t1'', title = ''pay rent'', dueDate = None, completed = False\<rparr>,
          \<lparr>task_id = ''t2'', title = ''call'', dueDate = None, completed = True\<rparr>] \<and>
   map_option navigations (fire (TapRow 1) (fetchTasks_fulfilled 0 (TaskArray
         [\<lparr>task_id = ''t1'', title = ''pay rent'', dueDate = None, completed = False\<rparr>,
          \<lparr>task_id = ''t2'', title = ''call'', dueDate = None, completed = True\<rparr>]) mount))
     = Some [detail ''t2''] \<and>
   map_option navigations (fire TapAdd (fetchTasks_fulfilled 0 (TaskArray
         [\<lparr>task_id = ''t1'', title = ''pay rent'', dueDate = None, completed = False\<rparr>,
          \<lparr>task_id = ''t2'', title = ''call'', dueDate = None, completed = True\<rparr>]) mount))
     = Some [add]"
  using navigation_contract [of "fetchTasks_fulfilled 0 (TaskArray
         [\<lparr>task_id = ''t1'', title = ''pay rent'', dueDate = None, completed = False\<rparr>,
          \<lparr>task_id = ''t2'', title = ''call'', dueDate = None, completed = True\<rparr>]) mount"
      "[\<lparr>task_id = ''t1'', title = ''pay rent'', dueDate = None, completed = False\<rparr>,
          \<lparr>task_id = ''t2'', title = ''call'', dueDate = None, completed = True\<rparr>]" 1]
  by (simp add: screen_defs)

subsection \<open>The request URL\<close>




end
